theory Spec2Isabelle
  imports Main
begin

section \<open>Exceptions\<close>

text \<open>
  The exceptions that \<open>generator/main.py\<close> raises or names in an \<open>except\<close> clause, and one
  constructor for every other exception an external collaborator may raise.
  In Python \<open>NotImplementedError\<close> is a subclass of \<open>RuntimeError\<close>, so
  \<open>except RuntimeError\<close> catches both.
\<close>

datatype exn =
    RuntimeError string
  | NotImplementedError string
  | ImportError string
  | ValueError string
  | OtherError string

fun isinstance_RuntimeError :: "exn \<Rightarrow> bool" where
  "isinstance_RuntimeError (RuntimeError _) = True"
| "isinstance_RuntimeError (NotImplementedError _) = True"
| "isinstance_RuntimeError _ = False"

fun isinstance_ImportError :: "exn \<Rightarrow> bool" where
  "isinstance_ImportError (ImportError _) = True"
| "isinstance_ImportError _ = False"

section \<open>Configuration and engines\<close>

text \<open>
  \<open>ConfigManager\<close> with the fields that \<open>main.py\<close> reads. \<open>config.refine\<close> and
  \<open>config.postprocess\<close> are only read through \<open>.engine\<close> and otherwise handed on to the
  collaborators; \<open>config.generate\<close> is opaque (type \<open>'g\<close>). The sub-configuration
  \<open>config.postprocess\<close> is the field \<open>postprocess_cfg\<close>, since \<open>postprocess\<close> already
  names the flag \<open>config.general.postprocess\<close>.
\<close>

record GeneralConfig =
  verbosity :: int
  print_config :: bool
  postprocess :: bool
  parallel :: int
  num_molecules :: int
  max_cycles :: int

record StageConfig =
  engine :: string

record XTBConfig =
  xtb_path :: string

record ORCAConfig =
  orca_path :: string

record 'g ConfigManager =
  general :: GeneralConfig
  generate :: 'g
  refine :: StageConfig
  postprocess_cfg :: StageConfig
  xtb :: XTBConfig
  orca :: ORCAConfig

datatype QMMethod = XTB string | ORCA string

text \<open>
  The collaborators that \<open>main.py\<close> imports and calls, and the machine it runs on.
  A molecule is opaque (type \<open>'m\<close>). The three molecule functions are random or call an
  external program, so each takes the call it answers, (molecule target, cycle), as its
  first argument; each either returns or raises. The path functions return a path, or
  \<open>None\<close>, or raise. \<open>schedule k\<close> is the order in which the operating system lets the
  workers of target \<open>k\<close> take their steps.
\<close>

record ('g, 'm) World =
  version :: string
  cpu_count :: int
  get_xtb_path :: "string \<Rightarrow> exn + string option"
  get_orca_path :: "string \<Rightarrow> exn + string option"
  generate_random_molecule :: "nat \<times> nat \<Rightarrow> 'g \<Rightarrow> int \<Rightarrow> exn + 'm"
  iterative_optimization ::
    "nat \<times> nat \<Rightarrow> 'm \<Rightarrow> QMMethod \<Rightarrow> 'g \<Rightarrow> StageConfig \<Rightarrow> int \<Rightarrow> exn + 'm"
  postprocess_mol ::
    "nat \<times> nat \<Rightarrow> 'm \<Rightarrow> QMMethod option \<Rightarrow> StageConfig \<Rightarrow> int \<Rightarrow> exn + 'm"
  schedule :: "nat \<Rightarrow> nat list"

section \<open>setup_engines\<close>

text \<open>
  The body of one \<open>try\<close> block: call the path function, raise \<open>ImportError\<close> when the
  path is falsy (\<open>None\<close> or the empty string).
\<close>

definition resolve_path ::
  "(string \<Rightarrow> exn + string option) \<Rightarrow> string \<Rightarrow> string \<Rightarrow> exn + string" where
  "resolve_path path_func configured msg =
     (case path_func configured of
        Inl e \<Rightarrow> Inl e
      | Inr None \<Rightarrow> Inl (ImportError msg)
      | Inr (Some path) \<Rightarrow> if path = [] then Inl (ImportError msg) else Inr path)"

text \<open>\<open>except ImportError as e: raise ImportError(msg) from e\<close>; anything else passes.\<close>

definition reraise_ImportError :: "string \<Rightarrow> exn + string \<Rightarrow> exn + string" where
  "reraise_ImportError msg r =
     (case r of
        Inl e \<Rightarrow> if isinstance_ImportError e then Inl (ImportError msg) else Inl e
      | Inr path \<Rightarrow> Inr path)"

definition setup_engines ::
  "string \<Rightarrow> 'g ConfigManager \<Rightarrow> (string \<Rightarrow> exn + string option) \<Rightarrow>
   (string \<Rightarrow> exn + string option) \<Rightarrow> exn + QMMethod" where
  "setup_engines engine_type engine_config xtb_path_func orca_path_func =
     (if engine_type = ''xtb'' then
        (case reraise_ImportError ''xtb not found.''
                (resolve_path xtb_path_func (xtb_path (xtb engine_config)) ''xtb not found.'') of
           Inl e \<Rightarrow> Inl e
         | Inr path \<Rightarrow> Inr (XTB path))
      else if engine_type = ''orca'' then
        (case reraise_ImportError ''orca not found.''
                (resolve_path orca_path_func (orca_path (orca engine_config)) ''orca not found.'') of
           Inl e \<Rightarrow> Inl e
         | Inr path \<Rightarrow> Inr (ORCA path))
      else Inl (NotImplementedError ''Engine not implemented.''))"

section \<open>The cycle worker: single_molecule_generator\<close>

text \<open>What a worker prints and which collaborators it calls, in order.\<close>

datatype wevent =
    PrintTick
  | PrintCycle nat
  | CallGenerate
  | CallOptimize
  | CallPostprocess
  | PrintRefinementFailed nat
  | PrintPostprocessingFailed nat
  | PrintExn exn
  | PrintSuccessful

text \<open>Lines 134-138.\<close>

definition announce :: "int \<Rightarrow> nat \<Rightarrow> wevent list" where
  "announce v cycle =
     (if v = 0 then [PrintTick] else if v > 0 then [PrintCycle (cycle + 1)] else [])"

text \<open>The body of an \<open>except RuntimeError as e\<close> block, before its \<open>return None\<close>.\<close>

definition report_failure :: "int \<Rightarrow> wevent \<Rightarrow> exn \<Rightarrow> wevent list" where
  "report_failure v what e =
     (if v > 0 then what # (if v > 1 then [PrintExn e] else []) else [])"

text \<open>
  Lines 134-184, the part of the worker between its two reads of \<open>stop_event\<close>. The
  result is \<open>Inl e\<close> when an exception leaves the worker, \<open>Inr None\<close> when the worker
  returns \<open>None\<close>, and \<open>Inr (Some m)\<close> when it reaches line 186 holding molecule \<open>m\<close>.
\<close>

definition attempt ::
  "('g, 'm) World \<Rightarrow> nat \<Rightarrow> 'g ConfigManager \<Rightarrow> QMMethod \<Rightarrow> QMMethod option \<Rightarrow> nat \<Rightarrow>
   (exn + 'm option) \<times> wevent list" where
  "attempt W k config refine_engine postprocess_engine cycle =
     (let v = verbosity (general config);
          log0 = announce v cycle @ [CallGenerate]
      in case generate_random_molecule W (k, cycle) (generate config) v of
           Inl e \<Rightarrow> (Inl e, log0)
         | Inr mol \<Rightarrow>
             (case iterative_optimization W (k, cycle) mol refine_engine
                     (generate config) (refine config) v of
                Inl e \<Rightarrow>
                  if isinstance_RuntimeError e
                  then (Inr None,
                        log0 @ [CallOptimize] @ report_failure v (PrintRefinementFailed (cycle + 1)) e)
                  else (Inl e, log0 @ [CallOptimize])
              | Inr optimized_molecule \<Rightarrow>
                  if postprocess (general config) then
                    (case postprocess_mol W (k, cycle) optimized_molecule postprocess_engine
                            (postprocess_cfg config) v of
                       Inl e \<Rightarrow>
                         if isinstance_RuntimeError e
                         then (Inr None,
                               log0 @ [CallOptimize, CallPostprocess]
                                 @ report_failure v (PrintPostprocessingFailed (cycle + 1)) e)
                         else (Inl e, log0 @ [CallOptimize, CallPostprocess])
                     | Inr postprocessed \<Rightarrow>
                         (Inr (Some postprocessed), log0 @ [CallOptimize, CallPostprocess]))
                  else (Inr (Some optimized_molecule), log0 @ [CallOptimize])))"

text \<open>Lines 187-190: set the signal and return the molecule.\<close>

definition claim_success :: "'g ConfigManager \<Rightarrow> wevent list" where
  "claim_success config = (if verbosity (general config) > 1 then [PrintSuccessful] else [])"

text \<open>
  The worker run without interruption on the signal value \<open>stop_event\<close>: the new signal,
  what the worker returns or raises, and its log.
\<close>

definition single_molecule_generator ::
  "('g, 'm) World \<Rightarrow> nat \<Rightarrow> 'g ConfigManager \<Rightarrow> QMMethod \<Rightarrow> QMMethod option \<Rightarrow> nat \<Rightarrow> bool \<Rightarrow>
   bool \<times> (exn + 'm option) \<times> wevent list" where
  "single_molecule_generator W k config refine_engine postprocess_engine cycle stop_event =
     (if stop_event then (stop_event, Inr None, [])
      else
        (case attempt W k config refine_engine postprocess_engine cycle of
           (Inr (Some optimized_molecule), log) \<Rightarrow>
             if \<not> stop_event
             then (True, Inr (Some optimized_molecule), log @ claim_success config)
             else (stop_event, Inr None, log)
         | (r, log) \<Rightarrow> (stop_event, r, log)))"

section \<open>The worker step by step\<close>

text \<open>
  Workers of one batch run in separate processes and share only \<open>stop_event\<close>. A worker
  touches the signal three times: \<open>is_set()\<close> at line 131, \<open>is_set()\<close> at line 186 and
  \<open>set()\<close> at line 187, three separate calls on the manager's event. Between two of them
  another worker may run, so each call (with the local work that follows it) is one step.
\<close>

datatype 'm wstate =
    Start
  | AtCheck 'm
  | AtSet 'm
  | Done "exn + 'm option"

fun worker_step ::
  "('g, 'm) World \<Rightarrow> nat \<Rightarrow> 'g ConfigManager \<Rightarrow> QMMethod \<Rightarrow> QMMethod option \<Rightarrow> nat \<Rightarrow>
   bool \<times> 'm wstate \<times> wevent list \<Rightarrow> bool \<times> 'm wstate \<times> wevent list" where
  "worker_step W k config refine_engine postprocess_engine cycle (stop_event, Start, log) =
     (if stop_event then (stop_event, Done (Inr None), log)
      else
        (case attempt W k config refine_engine postprocess_engine cycle of
           (Inr (Some optimized_molecule), l) \<Rightarrow> (stop_event, AtCheck optimized_molecule, log @ l)
         | (r, l) \<Rightarrow> (stop_event, Done r, log @ l)))"
| "worker_step W k config refine_engine postprocess_engine cycle (stop_event, AtCheck m, log) =
     (if \<not> stop_event then (stop_event, AtSet m, log)
      else (stop_event, Done (Inr None), log))"
| "worker_step W k config refine_engine postprocess_engine cycle (stop_event, AtSet m, log) =
     (True, Done (Inr (Some m)), log @ claim_success config)"
| "worker_step W k config refine_engine postprocess_engine cycle (stop_event, Done r, log) =
     (stop_event, Done r, log)"

text \<open>A worker, wherever it stands, run to its return without interruption.\<close>

fun finish_worker ::
  "('g, 'm) World \<Rightarrow> nat \<Rightarrow> 'g ConfigManager \<Rightarrow> QMMethod \<Rightarrow> QMMethod option \<Rightarrow> nat \<Rightarrow>
   bool \<times> 'm wstate \<times> wevent list \<Rightarrow> bool \<times> (exn + 'm option) \<times> wevent list" where
  "finish_worker W k config refine_engine postprocess_engine cycle (stop_event, Start, log) =
     (case single_molecule_generator W k config refine_engine postprocess_engine cycle stop_event of
        (ev, r, l) \<Rightarrow> (ev, r, log @ l))"
| "finish_worker W k config refine_engine postprocess_engine cycle (stop_event, AtCheck m, log) =
     (if \<not> stop_event then (True, Inr (Some m), log @ claim_success config)
      else (stop_event, Inr None, log))"
| "finish_worker W k config refine_engine postprocess_engine cycle (stop_event, AtSet m, log) =
     (True, Inr (Some m), log @ claim_success config)"
| "finish_worker W k config refine_engine postprocess_engine cycle (stop_event, Done r, log) =
     (stop_event, r, log)"

section \<open>The pool: mp.Pool(processes=num_cores).starmap\<close>

text \<open>
  One slot per submitted task: the cycle it was given, where its worker stands, its log.
  A worker that has started and not returned occupies one of the \<open>num_cores\<close> processes.
\<close>

type_synonym 'm slot = "nat \<times> 'm wstate \<times> wevent list"

fun in_flight :: "'m wstate \<Rightarrow> bool" where
  "in_flight (AtCheck _) = True"
| "in_flight (AtSet _) = True"
| "in_flight _ = False"

definition busy :: "'m slot list \<Rightarrow> nat" where
  "busy ws = length (filter (\<lambda>(cycle, s, log). in_flight s) ws)"

definition may_step :: "int \<Rightarrow> 'm slot list \<Rightarrow> nat \<Rightarrow> bool" where
  "may_step num_cores ws i =
     (i < length ws \<and>
      (case fst (snd (ws ! i)) of
         Start \<Rightarrow> int (busy ws) < num_cores
       | Done _ \<Rightarrow> False
       | _ \<Rightarrow> True))"

text \<open>The scheduler lets worker \<open>i\<close> take one step, if it is there and can.\<close>

definition pool_step ::
  "('g, 'm) World \<Rightarrow> nat \<Rightarrow> 'g ConfigManager \<Rightarrow> QMMethod \<Rightarrow> QMMethod option \<Rightarrow> int \<Rightarrow> nat \<Rightarrow>
   bool \<times> 'm slot list \<Rightarrow> bool \<times> 'm slot list" where
  "pool_step W k config refine_engine postprocess_engine num_cores i st =
     (case st of (stop_event, ws) \<Rightarrow>
        if may_step num_cores ws i then
          (case ws ! i of (cycle, s, log) \<Rightarrow>
             (case worker_step W k config refine_engine postprocess_engine cycle
                     (stop_event, s, log) of
                (ev, s', log') \<Rightarrow> (ev, ws[i := (cycle, s', log')])))
        else (stop_event, ws))"

text \<open>
  \<open>starmap\<close> blocks until every task has returned. After the schedule, the workers still
  running return first, in the order of their cycles.
\<close>

fun drain ::
  "('g, 'm) World \<Rightarrow> nat \<Rightarrow> 'g ConfigManager \<Rightarrow> QMMethod \<Rightarrow> QMMethod option \<Rightarrow>
   bool \<Rightarrow> 'm slot list \<Rightarrow> bool \<times> 'm slot list" where
  "drain W k config refine_engine postprocess_engine stop_event [] = (stop_event, [])"
| "drain W k config refine_engine postprocess_engine stop_event ((cycle, s, log) # ws) =
     (if in_flight s then
        (case finish_worker W k config refine_engine postprocess_engine cycle
                (stop_event, s, log) of
           (ev, r, log') \<Rightarrow>
             (case drain W k config refine_engine postprocess_engine ev ws of
                (ev', ws') \<Rightarrow> (ev', (cycle, Done r, log') # ws')))
      else
        (case drain W k config refine_engine postprocess_engine stop_event ws of
           (ev', ws') \<Rightarrow> (ev', (cycle, s, log) # ws')))"

text \<open>Then the tasks not yet started run one after the other, and every task has a result.\<close>

fun finish_all ::
  "('g, 'm) World \<Rightarrow> nat \<Rightarrow> 'g ConfigManager \<Rightarrow> QMMethod \<Rightarrow> QMMethod option \<Rightarrow>
   bool \<Rightarrow> 'm slot list \<Rightarrow> ((exn + 'm option) \<times> wevent list) list" where
  "finish_all W k config refine_engine postprocess_engine stop_event [] = []"
| "finish_all W k config refine_engine postprocess_engine stop_event ((cycle, s, log) # ws) =
     (case finish_worker W k config refine_engine postprocess_engine cycle
             (stop_event, s, log) of
        (ev, r, log') \<Rightarrow>
          (r, log') # finish_all W k config refine_engine postprocess_engine ev ws)"

text \<open>
  \<open>starmap\<close> returns the results in the order of the submitted tasks, or re-raises a
  worker's exception. (When several workers raise, the real pool re-raises the one that
  arrived first; here it is the one of the lowest cycle.)
\<close>

fun collect_results :: "(exn + 'a) list \<Rightarrow> exn + 'a list" where
  "collect_results [] = Inr []"
| "collect_results (Inl e # rs) = Inl e"
| "collect_results (Inr x # rs) =
     (case collect_results rs of Inl e \<Rightarrow> Inl e | Inr xs \<Rightarrow> Inr (x # xs))"

definition pool_run ::
  "('g, 'm) World \<Rightarrow> nat \<Rightarrow> 'g ConfigManager \<Rightarrow> QMMethod \<Rightarrow> QMMethod option \<Rightarrow> int \<Rightarrow>
   nat list \<Rightarrow> bool \<Rightarrow> nat list \<Rightarrow> ((exn + 'm option) \<times> wevent list) list" where
  "pool_run W k config refine_engine postprocess_engine num_cores cycles stop_event sched =
     (case fold (pool_step W k config refine_engine postprocess_engine num_cores) sched
             (stop_event, map (\<lambda>cycle. (cycle, Start, [])) cycles) of
        (ev1, ws1) \<Rightarrow>
          (case drain W k config refine_engine postprocess_engine ev1 ws1 of
             (ev2, ws2) \<Rightarrow> finish_all W k config refine_engine postprocess_engine ev2 ws2))"

definition pool_starmap ::
  "('g, 'm) World \<Rightarrow> nat \<Rightarrow> 'g ConfigManager \<Rightarrow> QMMethod \<Rightarrow> QMMethod option \<Rightarrow> int \<Rightarrow>
   nat list \<Rightarrow> bool \<Rightarrow> nat list \<Rightarrow> (exn + 'm option list) \<times> wevent list list" where
  "pool_starmap W k config refine_engine postprocess_engine num_cores cycles stop_event sched =
     (let outs = pool_run W k config refine_engine postprocess_engine num_cores cycles
                   stop_event sched
      in (collect_results (map fst outs), map snd outs))"

text \<open>A worker's result that is a molecule.\<close>

fun is_molecule :: "exn + 'm option \<Rightarrow> bool" where
  "is_molecule (Inr (Some _)) = True"
| "is_molecule _ = False"

section \<open>The coordinator: generator\<close>

text \<open>What the coordinator prints, warns about and starts, in order.\<close>

datatype ('g, 'm) event =
    PrintHeader string
  | PrintConfig "'g ConfigManager"
  | SetupEngine string
  | WarnCores int int int
  | PrintCores int
  | WarnVerbosityDisabled
  | PrintCycleLabel
  | PoolCreate int
  | PoolStarmap "'g ConfigManager" "nat list" "wevent list list"
  | PrintNewline
  | PrintFound nat 'm

text \<open>The warning of lines 57-61.\<close>

fun is_WarnCores :: "('g, 'm) event \<Rightarrow> bool" where
  "is_WarnCores (WarnCores _ _ _) = True"
| "is_WarnCores _ = False"

text \<open>\<open>header\<close>: the banner shows \<open>version[:5]\<close>; its box drawing is left out.\<close>

definition header :: "string \<Rightarrow> string" where
  "header v = ''MindlessGen v'' @ take 5 v"

text \<open>\<open>str\<close> of a natural number, for the f-string of the error message.\<close>

definition digit_char :: "nat \<Rightarrow> char" where
  "digit_char d = ''0123456789'' ! d"

fun str_nat :: "nat \<Rightarrow> string" where
  "str_nat n = (if n < 10 then [digit_char n] else str_nat (n div 10) @ [digit_char (n mod 10)])"

text \<open>The message of the \<open>RuntimeError\<close> of lines 110-112.\<close>

definition failed_message :: "nat \<Rightarrow> string" where
  "failed_message molcount =
     ''Molecule generation including optimization (and postprocessing) failed for all cycles for molecule ''
       @ str_nat (molcount + 1) @ ''.''"

text \<open>
  Lines 102-107: \<open>for i, result in enumerate(results)\<close>, stopping at the first result
  that is not \<open>None\<close>; \<open>i\<close> is the index the loop has reached.
\<close>

fun first_successful :: "nat \<Rightarrow> 'm option list \<Rightarrow> (nat \<times> 'm) option" where
  "first_successful i [] = None"
| "first_successful i (None # results) = first_successful (Suc i) results"
| "first_successful i (Some result # results) = Some (i + 1, result)"

text \<open>Lines 77-82: the configuration the workers of a batch are started with.\<close>

definition backup_verbosity :: "int \<Rightarrow> 'g ConfigManager \<Rightarrow> int option" where
  "backup_verbosity num_cores config =
     (if num_cores > 1 \<and> verbosity (general config) > 0
      then Some (verbosity (general config)) else None)"

definition batch_config :: "int \<Rightarrow> 'g ConfigManager \<Rightarrow> 'g ConfigManager" where
  "batch_config num_cores config =
     (case backup_verbosity num_cores config of
        Some b \<Rightarrow> config\<lparr>general := (general config)\<lparr>verbosity := 0\<rparr>\<rparr>
      | None \<Rightarrow> config)"

text \<open>Lines 98-99.\<close>

definition restore_verbosity :: "int option \<Rightarrow> 'g ConfigManager \<Rightarrow> 'g ConfigManager" where
  "restore_verbosity backup config =
     (case backup of
        Some b \<Rightarrow> config\<lparr>general := (general config)\<lparr>verbosity := b\<rparr>\<rparr>
      | None \<Rightarrow> config)"

text \<open>
  The body of the loop over the molecule targets, lines 74-116: the configuration as it
  is left, what was printed, and the accepted molecule or the exception.
  \<open>mp.Pool(processes=n)\<close> raises \<open>ValueError\<close> for \<open>n < 1\<close>. An exception leaves the loop
  at once, also past the lines that restore the verbosity.
\<close>

definition molecule_target ::
  "('g, 'm) World \<Rightarrow> QMMethod \<Rightarrow> QMMethod option \<Rightarrow> int \<Rightarrow> nat \<Rightarrow> 'g ConfigManager \<Rightarrow>
   'g ConfigManager \<times> ('g, 'm) event list \<times> (exn + 'm)" where
  "molecule_target W refine_engine postprocess_engine num_cores molcount config =
     (let stop_event = False;
          cycles = [0..<nat (max_cycles (general config))];
          backup = backup_verbosity num_cores config;
          config1 = batch_config num_cores config;
          t1 = (if verbosity (general config1) = 0 then [PrintCycleLabel] else [])
      in if num_cores < 1
         then (config1, t1, Inl (ValueError ''Number of processes must be at least 1''))
         else
           (case pool_starmap W molcount config1 refine_engine postprocess_engine num_cores
                   cycles stop_event (schedule W molcount) of
              (Inl e, logs) \<Rightarrow>
                (config1, t1 @ [PoolCreate num_cores, PoolStarmap config1 cycles logs], Inl e)
            | (Inr results, logs) \<Rightarrow>
                (let t2 = t1 @ [PoolCreate num_cores, PoolStarmap config1 cycles logs]
                            @ (if verbosity (general config1) = 0 then [PrintNewline] else []);
                     config2 = restore_verbosity backup config1
                 in case first_successful 0 results of
                      None \<Rightarrow> (config2, t2, Inl (RuntimeError (failed_message molcount)))
                    | Some (cycles_needed, optimized_molecule) \<Rightarrow>
                        (config2,
                         t2 @ (if verbosity (general config2) > 0
                               then [PrintFound cycles_needed optimized_molecule] else []),
                         Inr optimized_molecule))))"

text \<open>The loop \<open>for molcount in range(config.general.num_molecules)\<close>, lines 72-118.\<close>

fun generator_loop ::
  "('g, 'm) World \<Rightarrow> QMMethod \<Rightarrow> QMMethod option \<Rightarrow> int \<Rightarrow> nat list \<Rightarrow>
   'g ConfigManager \<times> ('g, 'm) event list \<times> 'm list \<Rightarrow>
   'g ConfigManager \<times> ('g, 'm) event list \<times> (exn + 'm list option \<times> int)" where
  "generator_loop W refine_engine postprocess_engine num_cores []
       (config, tr, optimized_molecules) =
     (config, tr, Inr (Some optimized_molecules, 0))"
| "generator_loop W refine_engine postprocess_engine num_cores (molcount # rest)
       (config, tr, optimized_molecules) =
     (case molecule_target W refine_engine postprocess_engine num_cores molcount config of
        (config', tr', Inl e) \<Rightarrow> (config', tr @ tr', Inl e)
      | (config', tr', Inr optimized_molecule) \<Rightarrow>
          generator_loop W refine_engine postprocess_engine num_cores rest
            (config', tr @ tr', optimized_molecules @ [optimized_molecule]))"

text \<open>Lines 55-70: what is printed and warned between the engines and the loop.\<close>

definition preamble :: "('g, 'm) World \<Rightarrow> 'g ConfigManager \<Rightarrow> ('g, 'm) event list" where
  "preamble W config =
     (let v = verbosity (general config);
          num_cores = min (cpu_count W) (parallel (general config))
      in (if v > 0 then [PrintConfig config] else [])
         @ (if parallel (general config) > cpu_count W
            then [WarnCores (parallel (general config)) (cpu_count W) num_cores] else [])
         @ (if v > 0 then [PrintCores num_cores] else [])
         @ (if num_cores > 1 \<and> v > 0 then [WarnVerbosityDisabled] else []))"

definition generator ::
  "('g, 'm) World \<Rightarrow> 'g ConfigManager \<Rightarrow>
   'g ConfigManager \<times> ('g, 'm) event list \<times> (exn + 'm list option \<times> int)" where
  "generator W config =
     (let t0 = (if verbosity (general config) > 0 then [PrintHeader (header (version W))] else [])
      in if print_config (general config)
         then (config, t0 @ [PrintConfig config], Inr (None, 0))
         else
           (case setup_engines (engine (refine config)) config
                   (get_xtb_path W) (get_orca_path W) of
              Inl e \<Rightarrow> (config, t0 @ [SetupEngine (engine (refine config))], Inl e)
            | Inr refine_engine \<Rightarrow>
                (case (if postprocess (general config)
                       then map_sum id Some
                              (setup_engines (engine (postprocess_cfg config)) config
                                 (get_xtb_path W) (get_orca_path W))
                       else Inr None) of
                   Inl e \<Rightarrow>
                     (config,
                      t0 @ [SetupEngine (engine (refine config)),
                            SetupEngine (engine (postprocess_cfg config))],
                      Inl e)
                 | Inr postprocess_engine \<Rightarrow>
                     (let num_cores = min (cpu_count W) (parallel (general config));
                          t1 = t0 @ [SetupEngine (engine (refine config))]
                                 @ (if postprocess (general config)
                                    then [SetupEngine (engine (postprocess_cfg config))] else [])
                                 @ preamble W config
                      in generator_loop W refine_engine postprocess_engine num_cores
                           [0..<nat (num_molecules (general config))] (config, t1, [])))))"

section \<open>The charge assigner: set_random_charge\<close>

text \<open>
  Modelled from the spec: \<open>set_random_charge\<close> of \<open>mindlessgen.molecules.miscellaneous\<close>
  is missing from the sources, only its test is there. Atoms are 0-based (hydrogen is 0),
  as in the test. The spec gives five entries of the lookup table; the entries of the
  other lanthanides are the parameter \<open>other\<close>, the charge of the lanthanide branch is
  the parameter \<open>ln_charge\<close>, and the random draw is the parameter \<open>r\<close>. The lanthanide
  that decides is the first one of the sequence.
\<close>

definition total_electrons :: "nat list \<Rightarrow> nat" where
  "total_electrons ati = sum_list (map (\<lambda>a. a + 1) ati)"

definition is_lanthanide :: "nat \<Rightarrow> bool" where
  "is_lanthanide a = (56 \<le> a \<and> a \<le> 70)"

definition unpaired_table :: "(nat \<Rightarrow> nat) \<Rightarrow> nat \<Rightarrow> nat" where
  "unpaired_table other a =
     (if a = 56 then 0
      else if a = 57 then 1
      else if a = 59 then 3
      else if a = 63 then 7
      else if a = 69 then 1
      else other a)"

definition charge_candidates :: "nat \<Rightarrow> int list" where
  "charge_candidates nel = (if odd nel then [- 1, 1] else [- 2, 0, 2])"

definition set_random_charge ::
  "(nat \<Rightarrow> nat) \<Rightarrow> (nat \<Rightarrow> int) \<Rightarrow> nat \<Rightarrow> nat list \<Rightarrow> int \<times> nat" where
  "set_random_charge other ln_charge r ati =
     (case find is_lanthanide ati of
        Some ln \<Rightarrow> (ln_charge ln, unpaired_table other ln)
      | None \<Rightarrow>
          (let cands = charge_candidates (total_electrons ati)
           in (cands ! (r mod length cands), 0)))"

section \<open>Concrete runs\<close>

text \<open>
  A machine with two cores on which every attempt succeeds: the molecule of cycle \<open>c\<close> is
  the number \<open>c\<close>. The schedule lets both workers of a batch pass line 186 before either
  reaches line 187, and the worker of cycle 1 return first.
\<close>

definition example_config :: "unit ConfigManager" where
  "example_config =
     \<lparr> general = \<lparr> verbosity = 0, print_config = False, postprocess = False, parallel = 2,
                   num_molecules = 1, max_cycles = 2 \<rparr>,
       generate = (),
       refine = \<lparr> engine = ''xtb'' \<rparr>,
       postprocess_cfg = \<lparr> engine = ''orca'' \<rparr>,
       xtb = \<lparr> xtb_path = ''xtb'' \<rparr>,
       orca = \<lparr> orca_path = ''orca'' \<rparr> \<rparr>"

definition example_world :: "(unit, nat) World" where
  "example_world =
     \<lparr> version = ''0.1.dev26+g7432299.d20240810'',
       cpu_count = 2,
       get_xtb_path = (\<lambda>p. Inr (Some p)),
       get_orca_path = (\<lambda>p. Inr (Some p)),
       generate_random_molecule = (\<lambda>kc g v. Inr (snd kc)),
       iterative_optimization = (\<lambda>kc m e g r v. Inr m),
       postprocess_mol = (\<lambda>kc m e p v. Inr m),
       schedule = (\<lambda>k. [0, 1, 0, 1, 1, 0]) \<rparr>"

text \<open>The same machine with an optimizer that never converges.\<close>

definition failing_world :: "(unit, nat) World" where
  "failing_world =
     example_world\<lparr> iterative_optimization :=
       (\<lambda>kc m e g r v. Inl (RuntimeError ''not converged'')) \<rparr>"

text \<open>The same machine with a postprocessor that never converges.\<close>

definition failing_postprocess_world :: "(unit, nat) World" where
  "failing_postprocess_world =
     example_world\<lparr> postprocess_mol :=
       (\<lambda>kc m e p v. Inl (RuntimeError ''not converged'')) \<rparr>"

definition three_cycles_config :: "unit ConfigManager" where
  "three_cycles_config =
     example_config\<lparr> general := (general example_config)\<lparr> max_cycles := 3 \<rparr> \<rparr>"

definition verbose_config :: "unit ConfigManager" where
  "verbose_config =
     example_config\<lparr> general := (general example_config)\<lparr> verbosity := 1 \<rparr> \<rparr>"

definition print_only_config :: "unit ConfigManager" where
  "print_only_config =
     example_config\<lparr> general := (general example_config)\<lparr> print_config := True, parallel := 8 \<rparr> \<rparr>"

definition eight_requested_config :: "unit ConfigManager" where
  "eight_requested_config =
     example_config\<lparr> general := (general example_config)\<lparr> parallel := 8 \<rparr> \<rparr>"

definition postprocess_config :: "unit ConfigManager" where
  "postprocess_config =
     example_config\<lparr> general := (general example_config)\<lparr> postprocess := True \<rparr> \<rparr>"

section \<open>The acceptance loop\<close>

lemma first_successful_iff:
  "first_successful n results = Some (c, m) \<longleftrightarrow>
     (\<exists>i<length results. c = n + i + 1 \<and> results ! i = Some m \<and> (\<forall>j<i. results ! j = None))"
proof (induction n results rule: first_successful.induct)
  case (1 i)
  then show ?case by simp
next
  case (2 i results)
  have "(\<exists>ia<length (None # results). c = i + ia + 1 \<and> (None # results) ! ia = Some m
            \<and> (\<forall>j<ia. (None # results) ! j = None))
        \<longleftrightarrow> (\<exists>i'<length results. c = Suc i + i' + 1 \<and> results ! i' = Some m
            \<and> (\<forall>j<i'. results ! j = None))"
    (is "?L \<longleftrightarrow> ?R")
  proof
    assume ?L
    then obtain ia where ia: "ia < length (None # results)" "c = i + ia + 1"
      "(None # results) ! ia = Some m" "\<forall>j<ia. (None # results) ! j = None" by blast
    then obtain i' where "ia = Suc i'" by (cases ia) auto
    with ia have "i' < length results \<and> c = Suc i + i' + 1 \<and> results ! i' = Some m
        \<and> (\<forall>j<i'. results ! j = None)"
      by auto
    then show ?R by blast
  next
    assume ?R
    then obtain i' where "i' < length results" "c = Suc i + i' + 1" "results ! i' = Some m"
      "\<forall>j<i'. results ! j = None" by blast
    then show ?L
      by (intro exI[of _ "Suc i'"]) (auto simp: less_Suc_eq_0_disj)
  qed
  with 2 show ?case by simp
next
  case (3 i result results)
  show ?case
  proof
    assume "first_successful i (Some result # results) = Some (c, m)"
    then show "\<exists>ia<length (Some result # results). c = i + ia + 1
        \<and> (Some result # results) ! ia = Some m
        \<and> (\<forall>j<ia. (Some result # results) ! j = None)"
      by (intro exI[of _ 0]) auto
  next
    assume "\<exists>ia<length (Some result # results). c = i + ia + 1
        \<and> (Some result # results) ! ia = Some m
        \<and> (\<forall>j<ia. (Some result # results) ! j = None)"
    then obtain ia where ia: "ia < length (Some result # results)" "c = i + ia + 1"
      "(Some result # results) ! ia = Some m" "\<forall>j<ia. (Some result # results) ! j = None"
      by blast
    have "ia = 0"
    proof (rule ccontr)
      assume "ia \<noteq> 0"
      with ia(4) have "(Some result # results) ! 0 = None" by blast
      then show False by simp
    qed
    with ia show "first_successful i (Some result # results) = Some (c, m)" by auto
  qed
qed

lemma first_successful_None_iff:
  "first_successful n results = None \<longleftrightarrow> (\<forall>r\<in>set results. r = None)"
  by (induction n results rule: first_successful.induct) auto

lemma finish_worker_steps:
  "worker_step W k config re pe cycle
     (worker_step W k config re pe cycle (worker_step W k config re pe cycle st)) =
   (case finish_worker W k config re pe cycle st of (ev, r, log) \<Rightarrow> (ev, Done r, log))"
proof -
  obtain stop_event s log where st: "st = (stop_event, s, log)" by (cases st)
  show ?thesis
  proof (cases s)
    case Start
    then show ?thesis
      by (auto simp: st single_molecule_generator_def split: prod.splits sum.splits option.splits)
  next
    case (AtCheck m)
    then show ?thesis by (simp add: st)
  next
    case (AtSet m)
    then show ?thesis by (simp add: st)
  next
    case (Done r)
    then show ?thesis by (simp add: st)
  qed
qed

lemma restore_batch_config:
  "restore_verbosity (backup_verbosity num_cores config) (batch_config num_cores config) = config"
  by (simp add: restore_verbosity_def backup_verbosity_def batch_config_def)

lemma molecule_target_Inr:
  assumes "molecule_target W re pe num_cores molcount config = (config', tr, Inr m)"
  shows "config' = config"
  using assms
  by (auto simp: molecule_target_def Let_def restore_batch_config
           split: if_splits prod.splits sum.splits option.splits)

lemma molecule_target_config:
  assumes "molecule_target W re pe num_cores molcount config = (config', tr, res)"
  shows "config' = config \<or> config' = batch_config num_cores config"
  using assms
  by (auto simp: molecule_target_def Let_def restore_batch_config
           split: if_splits prod.splits sum.splits option.splits)

lemma molecule_target_trace:
  assumes "molecule_target W re pe num_cores molcount config = (config', tr, res)"
  shows "filter is_WarnCores tr = []"
    and "PoolCreate n \<in> set tr \<Longrightarrow> n = num_cores"
    and "PoolStarmap c cy l \<in> set tr \<Longrightarrow> c = batch_config num_cores config"
  using assms
  by (auto simp: molecule_target_def Let_def
           split: if_splits prod.splits sum.splits option.splits)


lemma generator_loop_config:
  assumes "generator_loop W re pe num_cores ks (config, tr, mols) = (config', tr', res)"
  shows "(config' = config \<or> config' = batch_config num_cores config)
         \<and> (\<forall>r. res = Inr r \<longrightarrow> config' = config)"
  using assms
proof (induction ks arbitrary: tr mols)
  case Nil
  then show ?case by simp
next
  case (Cons molcount rest)
  obtain c1 t1 r1 where mt: "molecule_target W re pe num_cores molcount config = (c1, t1, r1)"
    by (cases "molecule_target W re pe num_cores molcount config") auto
  show ?case
  proof (cases r1)
    case (Inl e)
    with Cons.prems mt have "config' = c1" "res = Inl e" by auto
    with molecule_target_config[OF mt] show ?thesis by auto
  next
    case (Inr m)
    with mt have c1: "c1 = config"
      using molecule_target_Inr[of W re pe num_cores molcount config c1 t1 m] by simp
    from Cons.prems mt Inr c1
    have "generator_loop W re pe num_cores rest (config, tr @ t1, mols @ [m]) = (config', tr', res)"
      by simp
    then show ?thesis by (rule Cons.IH)
  qed
qed

lemma generator_loop_trace:
  assumes "generator_loop W re pe num_cores ks (config, tr, mols) = (config', tr', res)"
  shows "\<exists>ext. tr' = tr @ ext \<and> filter is_WarnCores ext = []
           \<and> (\<forall>n. PoolCreate n \<in> set ext \<longrightarrow> n = num_cores)
           \<and> (\<forall>c cy l. PoolStarmap c cy l \<in> set ext \<longrightarrow> c = batch_config num_cores config)"
  using assms
proof (induction ks arbitrary: tr mols)
  case Nil
  then show ?case by simp
next
  case (Cons molcount rest)
  obtain c1 t1 r1 where mt: "molecule_target W re pe num_cores molcount config = (c1, t1, r1)"
    by (cases "molecule_target W re pe num_cores molcount config") auto
  note tr1 = molecule_target_trace[OF mt]
  show ?case
  proof (cases r1)
    case (Inl e)
    with Cons.prems mt have "tr' = tr @ t1" by auto
    with tr1 show ?thesis by blast
  next
    case (Inr m)
    with mt have c1: "c1 = config"
      using molecule_target_Inr[of W re pe num_cores molcount config c1 t1 m] by simp
    from Cons.prems mt Inr c1
    have "generator_loop W re pe num_cores rest (config, tr @ t1, mols @ [m]) = (config', tr', res)"
      by simp
    from Cons.IH[OF this] obtain ext where ext: "tr' = (tr @ t1) @ ext"
      "filter is_WarnCores ext = []"
      "\<forall>n. PoolCreate n \<in> set ext \<longrightarrow> n = num_cores"
      "\<forall>c cy l. PoolStarmap c cy l \<in> set ext \<longrightarrow> c = batch_config num_cores config"
      by blast
    have "tr' = tr @ (t1 @ ext)" using ext(1) by simp
    moreover have "filter is_WarnCores (t1 @ ext) = []" using tr1(1) ext(2) by simp
    moreover have "\<forall>n. PoolCreate n \<in> set (t1 @ ext) \<longrightarrow> n = num_cores"
      using tr1(2) ext(3) by auto
    moreover have "\<forall>c cy l. PoolStarmap c cy l \<in> set (t1 @ ext)
        \<longrightarrow> c = batch_config num_cores config"
      using tr1(3) ext(4) by auto
    ultimately show ?thesis by blast
  qed
qed

lemma generator_loop_length:
  assumes "generator_loop W re pe num_cores ks (config, tr, mols) = (config', tr', Inr (r, z))"
  shows "\<exists>ms. r = Some ms \<and> length ms = length mols + length ks \<and> z = 0"
  using assms
proof (induction ks arbitrary: tr mols)
  case Nil
  then show ?case by auto
next
  case (Cons molcount rest)
  obtain c1 t1 r1 where mt: "molecule_target W re pe num_cores molcount config = (c1, t1, r1)"
    by (cases "molecule_target W re pe num_cores molcount config") auto
  show ?case
  proof (cases r1)
    case (Inl e)
    with Cons.prems mt show ?thesis by auto
  next
    case (Inr m)
    with mt have c1: "c1 = config"
      using molecule_target_Inr[of W re pe num_cores molcount config c1 t1 m] by simp
    from Cons.prems mt Inr c1
    have "generator_loop W re pe num_cores rest (config, tr @ t1, mols @ [m])
            = (config', tr', Inr (r, z))"
      by simp
    from Cons.IH[OF this] show ?thesis by auto
  qed
qed

text \<open>
  Claim C1. For every molecule target, whatever the schedule of the workers was: when the
  pool returns the results of the batch, listed by cycle, the coordinator accepts molecule
  \<open>m\<close> exactly when \<open>m\<close> is the result at the lowest cycle index whose result is not
  \<open>None\<close>.
\<close>

theorem lowest_cycle_accepted:
  assumes "1 \<le> num_cores"
    and "pool_starmap W molcount (batch_config num_cores config) refine_engine
           postprocess_engine num_cores [0..<nat (max_cycles (general config))] False
           (schedule W molcount) = (Inr results, logs)"
  shows "snd (snd (molecule_target W refine_engine postprocess_engine num_cores molcount config))
           = Inr m
         \<longleftrightarrow> (\<exists>i<length results. results ! i = Some m \<and> (\<forall>j<i. results ! j = None))"
proof (cases "first_successful 0 results")
  case None
  then have "\<forall>r\<in>set results. r = None" by (simp add: first_successful_None_iff)
  then have "\<not> (\<exists>i<length results. results ! i = Some m \<and> (\<forall>j<i. results ! j = None))"
    by (metis nth_mem option.distinct(1))
  moreover have "snd (snd (molecule_target W refine_engine postprocess_engine num_cores
      molcount config)) \<noteq> Inr m"
    using assms None by (simp add: molecule_target_def Let_def)
  ultimately show ?thesis by simp
next
  case (Some a)
  obtain c m' where a: "a = (c, m')" by (cases a)
  have res: "snd (snd (molecule_target W refine_engine postprocess_engine num_cores
      molcount config)) = Inr m'"
    using assms Some a by (simp add: molecule_target_def Let_def)
  from Some a obtain i where i: "i < length results" "results ! i = Some m'"
    "\<forall>j<i. results ! j = None"
    using first_successful_iff[of 0 results c m'] by auto
  show ?thesis
  proof
    assume "snd (snd (molecule_target W refine_engine postprocess_engine num_cores
      molcount config)) = Inr m"
    with res have "m = m'" by simp
    with i show "\<exists>i<length results. results ! i = Some m \<and> (\<forall>j<i. results ! j = None)"
      by blast
  next
    assume "\<exists>i<length results. results ! i = Some m \<and> (\<forall>j<i. results ! j = None)"
    then obtain i2 where i2: "i2 < length results" "results ! i2 = Some m"
      "\<forall>j<i2. results ! j = None" by blast
    have "i2 = i"
    proof (rule ccontr)
      assume "i2 \<noteq> i"
      then consider "i2 < i" | "i < i2" by linarith
      then show False
      proof cases
        case 1
        with i(3) i2(2) show False by simp
      next
        case 2
        with i2(3) i(2) show False by simp
      qed
    qed
    with i i2 have "m = m'" by simp
    with res show "snd (snd (molecule_target W refine_engine postprocess_engine num_cores
      molcount config)) = Inr m" by simp
  qed
qed

text \<open>
  In the concrete run the worker of cycle 1 returns its molecule before the worker of
  cycle 0 does, and the molecule of cycle 0 is accepted.
\<close>

lemma example_batch:
  "pool_starmap example_world 0 (batch_config 2 example_config) (XTB ''xtb'') None 2
     [0..<nat (max_cycles (general example_config))] False (schedule example_world 0)
   = (Inr [Some 0, Some 1],
      [ [PrintTick, CallGenerate, CallOptimize], [PrintTick, CallGenerate, CallOptimize]])"
  by code_simp

theorem lowest_cycle_accepted_witness:
  "(1::int) \<le> 2
   \<and> fst (pool_starmap example_world 0 (batch_config 2 example_config) (XTB ''xtb'') None 2
       [0..<nat (max_cycles (general example_config))] False (schedule example_world 0))
     = Inr [Some 0, Some 1]
   \<and> snd (snd (molecule_target example_world (XTB ''xtb'') None 2 0 example_config)) = Inr 0"
proof -
  have h1: "(1::int) \<le> 2" by simp
  have "\<exists>i<length [Some (0::nat), Some 1]. [Some (0::nat), Some 1] ! i = Some 0
      \<and> (\<forall>j<i. [Some (0::nat), Some 1] ! j = None)"
    by (intro exI[of _ 0]) simp
  then have "snd (snd (molecule_target example_world (XTB ''xtb'') None 2 0 example_config))
      = Inr 0"
    using lowest_cycle_accepted[OF h1 example_batch, of 0] by simp
  then show ?thesis using example_batch by simp
qed

section \<open>A batch without a result\<close>

text \<open>
  Claim C2, amended. For every molecule target: when the pool returns the results of the
  batch and every one of them is \<open>None\<close>, the loop over the targets ends with a
  \<open>RuntimeError\<close> and returns no list, whatever molecules it had accepted before. The
  message names the molecule target, counted from 1, and says that all cycles failed; it
  is the same for every number of cycles.
\<close>

theorem exhausted_batch_is_fatal:
  assumes "1 \<le> num_cores"
    and "pool_starmap W molcount (batch_config num_cores config) refine_engine
           postprocess_engine num_cores [0..<nat (max_cycles (general config))] False
           (schedule W molcount) = (Inr results, logs)"
    and "\<forall>r\<in>set results. r = None"
  shows "snd (snd (generator_loop W refine_engine postprocess_engine num_cores
                     (molcount # rest) (config, tr, optimized_molecules)))
           = Inl (RuntimeError
               (''Molecule generation including optimization (and postprocessing) failed for all cycles for molecule ''
                  @ str_nat (molcount + 1) @ ''.''))"
proof -
  from assms(3) have "first_successful 0 results = None"
    by (simp add: first_successful_None_iff)
  with assms(1,2)
  have "snd (snd (molecule_target W refine_engine postprocess_engine num_cores molcount config))
          = Inl (RuntimeError (failed_message molcount))"
    by (simp add: molecule_target_def Let_def)
  then show ?thesis
    by (cases "molecule_target W refine_engine postprocess_engine num_cores molcount config")
       (auto simp: failed_message_def)
qed

text \<open>
  A run of three cycles in which the optimizer never converges.
\<close>

lemma failing_batch:
  "pool_starmap failing_world 0 (batch_config 2 three_cycles_config) (XTB ''xtb'') None 2
     [0..<nat (max_cycles (general three_cycles_config))] False (schedule failing_world 0)
   = (Inr [None, None, None],
      [ [PrintTick, CallGenerate, CallOptimize], [PrintTick, CallGenerate, CallOptimize],
       [PrintTick, CallGenerate, CallOptimize]])"
  by code_simp

theorem exhausted_batch_is_fatal_witness:
  "(1::int) \<le> 2
   \<and> fst (pool_starmap failing_world 0 (batch_config 2 three_cycles_config) (XTB ''xtb'') None 2
       [0..<nat (max_cycles (general three_cycles_config))] False (schedule failing_world 0))
     = Inr [None, None, None]
   \<and> snd (snd (generator_loop failing_world (XTB ''xtb'') None 2 [0]
                  (three_cycles_config, [], [])))
       = Inl (RuntimeError
           ''Molecule generation including optimization (and postprocessing) failed for all cycles for molecule 1.'')"
proof -
  have h1: "(1::int) \<le> 2" by simp
  have h3: "\<forall>r\<in>set [None, None, None :: nat option]. r = None" by simp
  have "str_nat (0 + 1) = ''1''" by code_simp
  with exhausted_batch_is_fatal[OF h1 failing_batch h3, of "[]" "[]" "[]"] failing_batch
  show ?thesis by simp
qed

text \<open>
  The claim as it was stated fails there: three cycles were exhausted, and the message
  of the error does not contain the number.
\<close>

theorem failed_message_omits_cycle_count:
  "snd (snd (generator failing_world three_cycles_config))
     = Inl (RuntimeError
         ''Molecule generation including optimization (and postprocessing) failed for all cycles for molecule 1.'')
   \<and> max_cycles (general three_cycles_config) = 3
   \<and> CHR ''3'' \<notin> set ''Molecule generation including optimization (and postprocessing) failed for all cycles for molecule 1.''"
proof -
  have "snd (snd (generator failing_world three_cycles_config))
     = Inl (RuntimeError
         ''Molecule generation including optimization (and postprocessing) failed for all cycles for molecule 1.'')"
    by code_simp
  moreover have "max_cycles (general three_cycles_config) = 3"
    by (simp add: three_cycles_config_def)
  moreover have "CHR ''3'' \<notin> set ''Molecule generation including optimization (and postprocessing) failed for all cycles for molecule 1.''"
    by simp
  ultimately show ?thesis by blast
qed

section \<open>The cancellation signal\<close>

text \<open>
  Claim C5. The read of the signal at line 186 and the write at line 187 are two calls.
  On two cores, with both workers past line 186 before either reaches line 187, the
  signal is still unset when each of them has decided to return its molecule, and both
  results of the batch are molecules: more than one worker wins.
\<close>

theorem both_workers_return_a_molecule:
  "fold (pool_step example_world 0 example_config (XTB ''xtb'') None 2) [0, 1, 0, 1]
      (False, [(0, Start, []), (1, Start, [])])
     = (False, [(0, AtSet 0, [PrintTick, CallGenerate, CallOptimize]),
                (1, AtSet 1, [PrintTick, CallGenerate, CallOptimize])])
   \<and> fst (pool_starmap example_world 0 example_config (XTB ''xtb'') None 2 [0, 1] False
            [0, 1, 0, 1, 1, 0])
       = Inr [Some 0, Some 1]"
  by code_simp

text \<open>
  Claim C6. A worker that finds the signal set at its entry returns \<open>None\<close> with an
  empty log: it has printed nothing and called neither the generator nor the optimizer
  nor the postprocessor. Its first step is its last, so no schedule changes that.
\<close>

theorem cancelled_worker_returns_at_once:
  "single_molecule_generator W k config refine_engine postprocess_engine cycle True
     = (True, Inr None, [])
   \<and> worker_step W k config refine_engine postprocess_engine cycle (True, Start, log)
     = (True, Done (Inr None), log)"
  by (simp add: single_molecule_generator_def)

text \<open>
  When the workers of a batch run one after the other, at most one of them returns a
  molecule: the read of line 186 does its work as long as no other worker runs between
  it and the write of line 187.
\<close>

lemma single_molecule_generator_set:
  "single_molecule_generator W k config re pe cycle True = (True, Inr None, [])"
  by (simp add: single_molecule_generator_def)

lemma single_molecule_generator_unset:
  assumes "single_molecule_generator W k config re pe cycle False = (ev, r, log)"
  shows "ev = is_molecule r"
  using assms
  by (auto simp: single_molecule_generator_def split: prod.splits sum.splits option.splits)

lemma finish_all_after_winner:
  "\<forall>r \<in> set (map fst (finish_all W k config re pe True (map (\<lambda>c. (c, Start, [])) cycles))).
     \<not> is_molecule r"
  by (induction cycles) (simp_all add: single_molecule_generator_set)

lemma sequential_batch_single_winner:
  "length (filter is_molecule
     (map fst (finish_all W k config re pe ev (map (\<lambda>c. (c, Start, [])) cycles)))) \<le> 1"
proof (cases ev)
  case True
  have "filter is_molecule
      (map fst (finish_all W k config re pe True (map (\<lambda>c. (c, Start, [])) cycles))) = []"
    using finish_all_after_winner[of W k config re pe cycles] by (simp add: filter_empty_conv)
  with True show ?thesis by simp
next
  case False
  have "length (filter is_molecule
     (map fst (finish_all W k config re pe False (map (\<lambda>c. (c, Start, [])) cycles)))) \<le> 1"
  proof (induction cycles)
    case Nil
    then show ?case by simp
  next
    case (Cons c cycles)
    obtain ev' r log where s: "single_molecule_generator W k config re pe c False = (ev', r, log)"
      by (cases "single_molecule_generator W k config re pe c False") auto
    from single_molecule_generator_unset[OF s] have ev': "ev' = is_molecule r" .
    show ?case
    proof (cases "is_molecule r")
      case True
      have "filter is_molecule
          (map fst (finish_all W k config re pe True (map (\<lambda>c. (c, Start, [])) cycles))) = []"
        using finish_all_after_winner[of W k config re pe cycles]
        by (simp add: filter_empty_conv)
      with True s ev' show ?thesis by simp
    next
      case False
      with s ev' Cons.IH show ?thesis by simp
    qed
  qed
  with False show ?thesis by simp
qed

text \<open>The concrete batch above on a single core: the second worker finds the signal set.\<close>

lemma one_core_example:
  "fst (pool_starmap example_world 0 example_config (XTB ''xtb'') None 1 [0, 1] False
          [0, 1, 0, 1, 1, 0])
     = Inr [Some 0, None]"
  by code_simp

section \<open>Recoverable errors\<close>

text \<open>
  Claim C7. When the optimizer raises a \<open>RuntimeError\<close>, or the optimizer returns and the
  postprocessor, being configured, raises a \<open>RuntimeError\<close>, the worker returns \<open>None\<close>:
  no exception leaves it and the optimized molecule is not returned. The signal is left
  as it was. Under any schedule the worker's first step already ends it with \<open>None\<close>.
\<close>

theorem recoverable_failure_returns_none:
  assumes "generate_random_molecule W (k, cycle) (generate config) (verbosity (general config))
             = Inr mol"
    and "(\<exists>e. iterative_optimization W (k, cycle) mol refine_engine (generate config)
                 (refine config) (verbosity (general config)) = Inl e
               \<and> isinstance_RuntimeError e)
         \<or> (\<exists>optimized_molecule e.
               iterative_optimization W (k, cycle) mol refine_engine (generate config)
                 (refine config) (verbosity (general config)) = Inr optimized_molecule
               \<and> postprocess (general config)
               \<and> postprocess_mol W (k, cycle) optimized_molecule postprocess_engine
                   (postprocess_cfg config) (verbosity (general config)) = Inl e
               \<and> isinstance_RuntimeError e)"
  shows "fst (snd (single_molecule_generator W k config refine_engine postprocess_engine
                     cycle stop_event)) = Inr None
         \<and> fst (single_molecule_generator W k config refine_engine postprocess_engine
                  cycle stop_event) = stop_event
         \<and> fst (snd (worker_step W k config refine_engine postprocess_engine cycle
                        (stop_event, Start, log))) = Done (Inr None)"
proof -
  have "fst (attempt W k config refine_engine postprocess_engine cycle) = Inr None"
    using assms by (auto simp: attempt_def Let_def)
  then obtain l where "attempt W k config refine_engine postprocess_engine cycle = (Inr None, l)"
    by (cases "attempt W k config refine_engine postprocess_engine cycle") auto
  then show ?thesis by (simp add: single_molecule_generator_def)
qed

text \<open>
  Two concrete workers: the optimizer fails for the first, the postprocessor for the
  second.
\<close>

theorem recoverable_failure_returns_none_witness:
  "fst (snd (single_molecule_generator failing_world 0 example_config (XTB ''xtb'') None 1 False))
     = Inr None
   \<and> fst (snd (single_molecule_generator failing_postprocess_world 0 postprocess_config
                  (XTB ''xtb'') (Some (ORCA ''orca'')) 1 False))
     = Inr None"
proof -
  have g1: "generate_random_molecule failing_world (0, 1) (generate example_config)
      (verbosity (general example_config)) = Inr 1"
    by (simp add: failing_world_def example_world_def)
  have f1: "(\<exists>e. iterative_optimization failing_world (0, 1) 1 (XTB ''xtb'')
                 (generate example_config) (refine example_config)
                 (verbosity (general example_config)) = Inl e
               \<and> isinstance_RuntimeError e)"
    by (simp add: failing_world_def example_world_def)
  have g2: "generate_random_molecule failing_postprocess_world (0, 1)
      (generate postprocess_config) (verbosity (general postprocess_config)) = Inr 1"
    by (simp add: failing_postprocess_world_def example_world_def)
  have f2: "(\<exists>optimized_molecule e.
               iterative_optimization failing_postprocess_world (0, 1) 1 (XTB ''xtb'')
                 (generate postprocess_config) (refine postprocess_config)
                 (verbosity (general postprocess_config)) = Inr optimized_molecule
               \<and> postprocess (general postprocess_config)
               \<and> postprocess_mol failing_postprocess_world (0, 1) optimized_molecule
                   (Some (ORCA ''orca'')) (postprocess_cfg postprocess_config)
                   (verbosity (general postprocess_config)) = Inl e
               \<and> isinstance_RuntimeError e)"
    by (simp add: failing_postprocess_world_def example_world_def postprocess_config_def
          example_config_def)
  from recoverable_failure_returns_none[OF g1 disjI1[OF f1], of None False "[]"]
       recoverable_failure_returns_none[OF g2 disjI2[OF f2], of False "[]"]
  show ?thesis by simp
qed

section \<open>Cores, warnings and the configuration\<close>

text \<open>
  With \<open>print_config\<close> set the run ends before line 55: eight cores are requested on a
  machine with two, and nothing but the configuration is printed. So the claim does not
  hold for every configuration.
\<close>

theorem no_warning_when_only_printing:
  "cpu_count example_world < parallel (general print_only_config)
   \<and> fst (snd (generator example_world print_only_config)) = [PrintConfig print_only_config]"
  by (simp add: generator_def print_only_config_def example_config_def example_world_def)

text \<open>
  Claim C8, amended. For every configuration with \<open>print_config\<close> unset and engines that
  are found: the run warns about the number of cores exactly once when the configured
  parallelism exceeds the number of cores of the machine and never otherwise, and every
  pool it creates has \<open>min (cpu_count, parallel)\<close> processes.
\<close>

theorem pool_degree_and_warning:
  assumes "\<not> print_config (general config)"
    and "setup_engines (engine (refine config)) config (get_xtb_path W) (get_orca_path W)
           = Inr refine_engine"
    and "postprocess (general config) \<longrightarrow>
           setup_engines (engine (postprocess_cfg config)) config (get_xtb_path W)
             (get_orca_path W) = Inr postprocess_engine"
  shows "filter is_WarnCores (fst (snd (generator W config)))
           = (if cpu_count W < parallel (general config)
              then [WarnCores (parallel (general config)) (cpu_count W)
                      (min (cpu_count W) (parallel (general config)))]
              else [])
         \<and> (\<forall>n. PoolCreate n \<in> set (fst (snd (generator W config)))
               \<longrightarrow> n = min (cpu_count W) (parallel (general config)))"
proof -
  define num_cores where "num_cores = min (cpu_count W) (parallel (general config))"
  define pe where "pe = (if postprocess (general config) then Some postprocess_engine else None)"
  define t1 where "t1 =
    (if verbosity (general config) > 0 then [PrintHeader (header (version W))] else [])
      @ [SetupEngine (engine (refine config))]
      @ (if postprocess (general config)
         then [SetupEngine (engine (postprocess_cfg config))] else [])
      @ preamble W config"
  have gen: "generator W config
      = generator_loop W refine_engine pe num_cores
          [0..<nat (num_molecules (general config))] (config, t1, [])"
    using assms by (simp add: generator_def Let_def num_cores_def pe_def t1_def)
  obtain config' tr res where loop: "generator_loop W refine_engine pe num_cores
          [0..<nat (num_molecules (general config))] (config, t1, []) = (config', tr, res)"
    by (cases "generator_loop W refine_engine pe num_cores
          [0..<nat (num_molecules (general config))] (config, t1, [])") auto
  from generator_loop_trace[OF loop] obtain ext where ext: "tr = t1 @ ext"
    "filter is_WarnCores ext = []" "\<forall>n. PoolCreate n \<in> set ext \<longrightarrow> n = num_cores"
    by blast
  have w1: "filter is_WarnCores t1
      = (if cpu_count W < parallel (general config)
         then [WarnCores (parallel (general config)) (cpu_count W) num_cores] else [])"
    by (simp add: t1_def preamble_def Let_def num_cores_def)
  have p1: "\<forall>n. PoolCreate n \<notin> set t1"
    by (simp add: t1_def preamble_def Let_def)
  have "fst (snd (generator W config)) = t1 @ ext" using gen loop ext(1) by simp
  then show ?thesis using w1 p1 ext(2,3) by (auto simp: num_cores_def)
qed

theorem pool_degree_and_warning_witness:
  "\<not> print_config (general eight_requested_config)
   \<and> filter is_WarnCores (fst (snd (generator example_world eight_requested_config)))
       = [WarnCores 8 2 2]
   \<and> PoolCreate 2 \<in> set (fst (snd (generator example_world eight_requested_config)))
   \<and> PoolCreate 8 \<notin> set (fst (snd (generator example_world eight_requested_config)))"
proof -
  have h1: "\<not> print_config (general eight_requested_config)"
    by (simp add: eight_requested_config_def example_config_def)
  have h2: "setup_engines (engine (refine eight_requested_config)) eight_requested_config
      (get_xtb_path example_world) (get_orca_path example_world) = Inr (XTB ''xtb'')"
    by (simp add: setup_engines_def resolve_path_def reraise_ImportError_def
          eight_requested_config_def example_config_def example_world_def)
  have h3: "postprocess (general eight_requested_config) \<longrightarrow>
      setup_engines (engine (postprocess_cfg eight_requested_config)) eight_requested_config
        (get_xtb_path example_world) (get_orca_path example_world) = Inr (ORCA ''orca'')"
    by (simp add: eight_requested_config_def example_config_def)
  have v: "cpu_count example_world = 2" "parallel (general eight_requested_config) = 8"
    by (simp_all add: eight_requested_config_def example_config_def example_world_def)
  have p: "PoolCreate 2 \<in> set (fst (snd (generator example_world eight_requested_config)))"
    by code_simp
  note t = pool_degree_and_warning[OF h1 h2 h3]
  have w: "filter is_WarnCores (fst (snd (generator example_world eight_requested_config)))
      = [WarnCores 8 2 2]"
    using conjunct1[OF t] by (simp only: v) simp
  have d: "PoolCreate 8 \<in> set (fst (snd (generator example_world eight_requested_config)))
      \<longrightarrow> (8::int) = min 2 8"
    using spec[OF conjunct2[OF t], of 8] by (simp only: v)
  have q: "PoolCreate 8 \<notin> set (fst (snd (generator example_world eight_requested_config)))"
  proof
    assume "PoolCreate 8 \<in> set (fst (snd (generator example_world eight_requested_config)))"
    from mp[OF d this] have "(8::int) = min 2 8" .
    then show False by simp
  qed
  from h1 w p q show ?thesis by (intro conjI)
qed

text \<open>
  The coordinator does write to the configuration: started with verbosity 1 on two
  cores, it hands the workers a configuration with verbosity 0.
\<close>

theorem verbosity_zeroed_during_batch:
  "verbosity (general verbose_config) = 1
   \<and> PoolStarmap (verbose_config\<lparr>general := (general verbose_config)\<lparr>verbosity := 0\<rparr>\<rparr>) [0, 1]
       [ [PrintTick, CallGenerate, CallOptimize], [PrintTick, CallGenerate, CallOptimize]]
     \<in> set (fst (snd (generator example_world verbose_config)))"
  by code_simp

text \<open>
  Claim C9, amended. The only field the coordinator ever writes is
  \<open>general.verbosity\<close>: with more than one core and a positive verbosity every batch of
  workers is started with the verbosity set to 0, otherwise with the configuration
  unchanged; at the end of the run the configuration is the initial one or the initial
  one with verbosity 0, and it is the initial one whenever the run returns.
\<close>

theorem only_verbosity_is_touched:
  assumes "generator W config = (config', tr, res)"
  shows "(config' = config \<or> config' = config\<lparr>general := (general config)\<lparr>verbosity := 0\<rparr>\<rparr>)
         \<and> (\<forall>r. res = Inr r \<longrightarrow> config' = config)
         \<and> (\<forall>c cycles logs. PoolStarmap c cycles logs \<in> set tr \<longrightarrow>
               c = (if 1 < min (cpu_count W) (parallel (general config))
                       \<and> 0 < verbosity (general config)
                    then config\<lparr>general := (general config)\<lparr>verbosity := 0\<rparr>\<rparr>
                    else config))"
proof -
  define num_cores where "num_cores = min (cpu_count W) (parallel (general config))"
  have bc: "batch_config num_cores config
      = (if 1 < num_cores \<and> 0 < verbosity (general config)
         then config\<lparr>general := (general config)\<lparr>verbosity := 0\<rparr>\<rparr> else config)"
    by (simp add: batch_config_def backup_verbosity_def)
  consider (early) "config' = config" "\<forall>c cycles logs. PoolStarmap c cycles logs \<notin> set tr"
    | (loop) re pe t1 where
        "generator_loop W re pe num_cores [0..<nat (num_molecules (general config))]
           (config, t1, []) = (config', tr, res)"
        "\<forall>c cycles logs. PoolStarmap c cycles logs \<notin> set t1"
    using assms
    by (auto simp: generator_def Let_def num_cores_def preamble_def
             split: if_splits sum.splits)
  then show ?thesis
  proof cases
    case early
    then show ?thesis by simp
  next
    case loop
    from generator_loop_config[OF loop(1)]
    have c: "config' = config \<or> config' = batch_config num_cores config"
      "\<forall>r. res = Inr r \<longrightarrow> config' = config" by blast+
    from generator_loop_trace[OF loop(1)] obtain ext where ext: "tr = t1 @ ext"
      "\<forall>c cy l. PoolStarmap c cy l \<in> set ext \<longrightarrow> c = batch_config num_cores config"
      by blast
    have "\<forall>c cy l. PoolStarmap c cy l \<in> set tr \<longrightarrow> c = batch_config num_cores config"
      using ext loop(2) by auto
    then have s3: "\<forall>c cycles logs. PoolStarmap c cycles logs \<in> set tr \<longrightarrow>
        c = (if 1 < num_cores \<and> 0 < verbosity (general config)
             then config\<lparr>general := (general config)\<lparr>verbosity := 0\<rparr>\<rparr> else config)"
      by (simp only: bc)
    have s1: "config' = config
        \<or> config' = config\<lparr>general := (general config)\<lparr>verbosity := 0\<rparr>\<rparr>"
      using c(1) by (cases "1 < num_cores \<and> 0 < verbosity (general config)") (auto simp: bc)
    from s1 c(2) s3[unfolded num_cores_def] show ?thesis by blast
  qed
qed

theorem only_verbosity_is_touched_witness:
  "fst (generator example_world verbose_config) = verbose_config
   \<and> snd (snd (generator example_world verbose_config)) = Inr (Some [0], 0)"
proof -
  obtain config' tr res where g: "generator example_world verbose_config = (config', tr, res)"
    by (cases "generator example_world verbose_config") auto
  have "snd (snd (generator example_world verbose_config)) = Inr (Some [0], 0)"
    by code_simp
  with g have r: "res = Inr (Some [0], 0)" by simp
  from only_verbosity_is_touched[OF g] r have "config' = verbose_config" by blast
  with g r show ?thesis by simp
qed

text \<open>
  Claim C10. With \<open>print_config\<close> set the generator prints the header (if the verbosity
  is positive) and the configuration and returns \<open>(None, 0)\<close>: no engine is set up, no
  pool is created, no worker runs, and the configuration is unchanged.
\<close>

theorem print_config_returns_at_once:
  assumes "print_config (general config)"
  shows "generator W config
           = (config,
              (if 0 < verbosity (general config) then [PrintHeader (header (version W))] else [])
                @ [PrintConfig config],
              Inr (None, 0))"
  using assms by (simp add: generator_def)

theorem print_config_returns_at_once_witness:
  "print_config (general print_only_config)
   \<and> generator example_world print_only_config
       = (print_only_config, [PrintConfig print_only_config], Inr (None, 0))"
proof -
  have h: "print_config (general print_only_config)"
    by (simp add: print_only_config_def)
  have "verbosity (general print_only_config) = 0"
    by (simp add: print_only_config_def example_config_def)
  with print_config_returns_at_once[OF h, of example_world] h show ?thesis by simp
qed

section \<open>Charge and unpaired electrons\<close>

lemma find_lanthanide_None:
  assumes "\<forall>a\<in>set ati. \<not> is_lanthanide a"
  shows "find is_lanthanide ati = None"
  using assms by (simp add: find_None_iff)

lemma candidate_odd:
  assumes "odd n"
  shows "charge_candidates n ! (r mod length (charge_candidates n)) \<in> {- 1, 1}"
proof -
  define i where "i = r mod length (charge_candidates n)"
  have cands: "charge_candidates n = [- 1, 1]"
    using assms by (simp add: charge_candidates_def)
  have "length (charge_candidates n) = 2" by (simp add: cands)
  then have "i < 2" by (simp add: i_def)
  then have "i = 0 \<or> i = 1" by arith
  then have "charge_candidates n ! i \<in> {- 1, 1}" by (auto simp: cands)
  then show ?thesis unfolding i_def .
qed

lemma candidate_even:
  assumes "even n"
  shows "charge_candidates n ! (r mod length (charge_candidates n)) \<in> {- 2, 0, 2}"
proof -
  define i where "i = r mod length (charge_candidates n)"
  have cands: "charge_candidates n = [- 2, 0, 2]"
    using assms by (simp add: charge_candidates_def)
  have "length (charge_candidates n) = 3" by (simp add: cands)
  then have "i < 3" by (simp add: i_def)
  then have "i = 0 \<or> i = 1 \<or> i = 2" by arith
  then have "charge_candidates n ! i \<in> {- 2, 0, 2}" by (auto simp: cands)
  then show ?thesis unfolding i_def .
qed

lemma standard_branch_value:
  assumes "\<forall>a\<in>set ati. \<not> is_lanthanide a"
  shows "set_random_charge other ln_charge r ati
           = (charge_candidates (total_electrons ati)
                ! (r mod length (charge_candidates (total_electrons ati))), 0)"
  using find_lanthanide_None[OF assms]
  by (simp add: set_random_charge_def Let_def)

text \<open>
  Claim C3. For a non-empty sequence without a lanthanide, whatever the random draw: the
  number of unpaired electrons is 0, the total number of electrons minus the charge is
  even, the charge is -1 or 1 for an odd number of electrons and -2, 0 or 2 for an even
  one.
\<close>

theorem standard_branch_closed_shell:
  assumes "ati \<noteq> []" and "\<forall>a\<in>set ati. \<not> is_lanthanide a"
  shows "snd (set_random_charge other ln_charge r ati) = 0
         \<and> even (int (total_electrons ati) - fst (set_random_charge other ln_charge r ati))
         \<and> (odd (total_electrons ati) \<longrightarrow>
              fst (set_random_charge other ln_charge r ati) \<in> {- 1, 1})
         \<and> (even (total_electrons ati) \<longrightarrow>
              fst (set_random_charge other ln_charge r ati) \<in> {- 2, 0, 2})"
proof -
  define c where "c = charge_candidates (total_electrons ati)
                        ! (r mod length (charge_candidates (total_electrons ati)))"
  have v: "set_random_charge other ln_charge r ati = (c, 0)"
    unfolding c_def by (rule standard_branch_value[OF assms(2)])
  show ?thesis
  proof (cases "odd (total_electrons ati)")
    case True
    from candidate_odd[OF True, of r] have "c = - 1 \<or> c = 1" by (simp add: c_def)
    with True show ?thesis unfolding v by auto
  next
    case False
    then have ev: "even (total_electrons ati)" by simp
    from candidate_even[OF ev, of r] have "c = - 2 \<or> c = 0 \<or> c = 2" by (simp add: c_def)
    with ev show ?thesis unfolding v by auto
  qed
qed

theorem standard_branch_closed_shell_witness:
  "[4, 6, 0 :: nat] \<noteq> []
   \<and> \<not> is_lanthanide 4 \<and> \<not> is_lanthanide 6 \<and> \<not> is_lanthanide 0
   \<and> odd (total_electrons [4, 6, 0])
   \<and> snd (set_random_charge (\<lambda>a. 0) (\<lambda>a. 0) 7 [4, 6, 0]) = 0
   \<and> fst (set_random_charge (\<lambda>a. 0) (\<lambda>a. 0) 7 [4, 6, 0]) \<in> {- 1, 1}"
proof -
  have h1: "[4, 6, 0 :: nat] \<noteq> []" by simp
  have h2: "\<forall>a\<in>set [4, 6, 0 :: nat]. \<not> is_lanthanide a" by (simp add: is_lanthanide_def)
  have h3: "odd (total_electrons [4, 6, 0])" by (simp add: total_electrons_def)
  from standard_branch_closed_shell[OF h1 h2, of "\<lambda>a. 0" "\<lambda>a. 0" 7] h1 h2 h3
  show ?thesis by simp
qed





text \<open>The model returns the unpaired electrons that the repository's test expects.\<close>

lemma test_set_random_charge_lanthanides:
  "snd (set_random_charge other ln_charge r [56, 7, 0]) = 0"
  "snd (set_random_charge other ln_charge r [59, 7, 7, 0]) = 3"
  "snd (set_random_charge other ln_charge r [63, 6, 6]) = 7"
  "snd (set_random_charge other ln_charge r [57, 7, 0]) = 1"
  "snd (set_random_charge other ln_charge r [69, 7, 0]) = 1"
  by (simp_all add: set_random_charge_def is_lanthanide_def unpaired_table_def)

end
